theory Spec2Isabelle
  imports Main "HOL-Library.Word"
begin

section \<open>The ChronoLog reader script (reader.cpp)\<close>

text \<open>
  The program is one translation unit: three globals (\<open>running\<close>, \<open>list_of_chunks\<close>,
  \<open>agent_ptr\<close>), the SIGINT handler \<open>signalHandler\<close> and \<open>main\<close>. The archive
  reading agent, the configuration manager and the logger are declared in headers that
  are not part of the sources; what they hand back to \<open>main\<close> is a parameter of the
  model (the record \<open>env\<close>).
\<close>

subsection \<open>Data\<close>

type_synonym u64 = "64 word"
type_synonym addr = nat

text \<open>
  The five fields of an event that \<open>main\<close> prints (lines 90 to 94). Their declared
  types live in the absent header; the numeric ones are printed in decimal and are
  modelled by their value.
\<close>

record LogEvent =
  storyId :: nat
  eventTime :: nat
  clientId :: nat
  eventIndex :: nat
  logRecord :: string

text \<open>
  A chunk is read only through \<open>getEventCount()\<close> and through the range-for of line 87,
  which uses \<open>kv.second\<close> alone: the model keeps the events in the order in which that
  loop visits them.
\<close>

type_synonym StoryChunk = "LogEvent list"

text \<open>
  Modelled from the spec: \<open>StoryChunk::getEventCount\<close> is declared in the absent
  header; the spec describes it as "an event count derived from the mapping's size".
\<close>

definition getEventCount :: "StoryChunk \<Rightarrow> int" where
  "getEventCount ch = int (length ch)"

text \<open>One operand of a stream insertion: a piece of text or a number printed in decimal.\<close>

datatype tok = Str string | Dec int

text \<open>The observable actions of a run, in the order in which they happen.\<close>

datatype event =
    Stdout "tok list"
  | Stderr "tok list"
  | ConfigLoaded string
  | LoggerInitialized
  | AgentNew string
  | AgentInitialize
  | AgentRead string string u64 u64
  | ChunkAllocated addr
  | ChunkDeleted addr
  | AgentShutdown
  | AgentDeleted

datatype exn = InvalidArgument | OutOfRange | BackendError

datatype ub = DoubleFree addr | UseAfterFree addr | DanglingAgent

text \<open>
  How the process stands: still running, ended by \<open>return\<close> from \<open>main\<close> or by
  \<open>std::exit\<close> with a status, ended by \<open>std::terminate\<close> after an exception that
  nothing catches (\<open>main\<close> has no \<open>try\<close> block), killed by the default action of a
  signal, or past an operation whose behaviour C++ leaves undefined. The model stops at
  the first undefined operation and records which one it was.
\<close>

datatype status =
    Running
  | Exited int
  | Terminated exn
  | Killed int
  | Undefined ub

text \<open>The locals of \<open>main\<close> that the flag loop sets (lines 26 to 30).\<close>

record params =
  conf_file :: string
  chronicle_name :: string
  story_name :: string
  start_time :: u64
  end_time :: u64

definition defaults :: params where
  "defaults = \<lparr> conf_file = [], chronicle_name = ''LLM'', story_name = ''conversation'',
                start_time = 1736800000000000000,
                end_time = 1745539189396295796 + 1000000000000000 \<rparr>"

text \<open>
  The globals, the heap of chunks, and the trace. \<open>agent_ptr\<close> is \<open>None\<close> for the null
  pointer and otherwise holds the archive path the agent was built with; \<open>agent_live\<close>
  tells whether the object it points to has not yet been deleted. \<open>handler\<close> tells
  whether line 69 has installed \<open>signalHandler\<close>.
\<close>

record state =
  locals :: params
  list_of_chunks :: "addr list"
  agent_ptr :: "string option"
  agent_live :: bool
  heap :: "addr \<rightharpoonup> StoryChunk"
  handler :: bool
  trace :: "event list"
  status :: status

text \<open>
  How a call into the backend can come back. The declarations are absent, so all three
  are possible inputs: \<open>main\<close> discards the value of each call expression (lines 75,
  80 and 106), and an exception leaves \<open>main\<close> uncaught.
\<close>

datatype call_result = Succeeds | FailsByStatus | FailsByException

text \<open>
  What the surroundings supply to one run: \<open>argv[0]\<close>, the remaining arguments, the
  archive directory of the configuration, the value returned by the logger's
  \<open>initialize\<close>, and what the agent's \<open>initialize\<close> and \<open>readArchivedStory\<close> do:
  how they come back and which freshly allocated chunks the read appended.
\<close>

record env =
  prog :: string
  args :: "string list"
  story_files_dir :: string
  logger_rc :: int
  initialize_result :: call_result
  read_result :: call_result
  read_chunks :: "(addr \<times> StoryChunk) list"

definition EXIT_FAILURE :: int where
  "EXIT_FAILURE = 1"

subsection \<open>std::stoull\<close>

text \<open>
  \<open>std::stoull(str)\<close> with the default base 10 is \<open>strtoull\<close>: leading white space
  is skipped, one sign is accepted, the longest run of digits is read and what follows
  is ignored. No digit at all throws \<open>std::invalid_argument\<close>; a value above
  \<open>ULLONG_MAX\<close> throws \<open>std::out_of_range\<close>; a minus sign negates the value in
  the unsigned type.
\<close>

definition isspace_c :: "char \<Rightarrow> bool" where
  "isspace_c c = (c = CHR '' '' \<or> ((9::nat) \<le> of_char c \<and> (of_char c :: nat) \<le> 13))"

definition isdigit_c :: "char \<Rightarrow> bool" where
  "isdigit_c c = ((48::nat) \<le> of_char c \<and> (of_char c :: nat) \<le> 57)"

definition digit_value :: "char \<Rightarrow> nat" where
  "digit_value c = of_char c - 48"

definition decimal_value :: "string \<Rightarrow> nat" where
  "decimal_value ds = foldl (\<lambda>acc d. acc * 10 + digit_value d) 0 ds"

definition ULLONG_MAX :: nat where
  "ULLONG_MAX = 2 ^ 64 - 1"

definition stoull :: "string \<Rightarrow> exn + u64" where
  "stoull str =
     (let t = dropWhile isspace_c str;
          neg = (case t of c # _ \<Rightarrow> c = CHR ''-'' | [] \<Rightarrow> False);
          u = (case t of c # r \<Rightarrow> (if c = CHR ''-'' \<or> c = CHR ''+'' then r else t) | [] \<Rightarrow> t);
          ds = takeWhile isdigit_c u
      in if ds = [] then Inl InvalidArgument
         else if ULLONG_MAX < decimal_value ds then Inl OutOfRange
         else Inr (if neg then - word_of_nat (decimal_value ds) else word_of_nat (decimal_value ds)))"

subsection \<open>The flag loop (lines 33 to 47)\<close>

text \<open>
  The loop walks \<open>argv[1..argc-1]\<close>; the list is what is left from index \<open>i\<close> on.
  Every branch asks for \<open>i+1 < argc\<close>, so a last argument standing alone matches
  none and is skipped. A branch that is taken consumes the flag and its value.
\<close>

fun flag_loop :: "string list \<Rightarrow> params \<Rightarrow> exn + params" where
  "flag_loop [] p = Inr p"
| "flag_loop [a] p = Inr p"
| "flag_loop (a # v # rest) p =
     (if a = ''-c'' \<or> a = ''--config'' then flag_loop rest (p\<lparr>conf_file := v\<rparr>)
      else if a = ''-C'' then flag_loop rest (p\<lparr>chronicle_name := v\<rparr>)
      else if a = ''-S'' then flag_loop rest (p\<lparr>story_name := v\<rparr>)
      else if a = ''-st'' \<or> a = ''--start'' then
        (case stoull v of Inl e \<Rightarrow> Inl e | Inr n \<Rightarrow> flag_loop rest (p\<lparr>start_time := n\<rparr>))
      else if a = ''-et'' \<or> a = ''--end'' then
        (case stoull v of Inl e \<Rightarrow> Inl e | Inr n \<Rightarrow> flag_loop rest (p\<lparr>end_time := n\<rparr>))
      else flag_loop (v # rest) p)"

text \<open>The usage message of lines 49 to 52, one operand per insertion.\<close>

definition usage :: "string \<Rightarrow> tok list" where
  "usage argv0 = [Str ''Usage: '', Str argv0, Str '' -c <config.json>'',
                  Str '' [-C chronicle] [-S story]'',
                  Str '' [-s startTime] [-e endTime]\<newline>'']"

subsection \<open>Steps on the state\<close>

definition initial :: state where
  "initial = \<lparr> locals = defaults, list_of_chunks = [], agent_ptr = None, agent_live = False,
               heap = Map.empty, handler = False, trace = [], status = Running \<rparr>"

definition emit :: "event \<Rightarrow> state \<Rightarrow> state" where
  "emit e s = s\<lparr>trace := trace s @ [e]\<rparr>"

definition when_running :: "(state \<Rightarrow> state) \<Rightarrow> state \<Rightarrow> state" where
  "when_running f s = (if status s = Running then f s else s)"

text \<open>
  \<open>delete c\<close> on a chunk pointer: a live chunk is destroyed; deleting a chunk that is
  no longer live is undefined behaviour.
\<close>

definition delete_chunk :: "addr \<Rightarrow> state \<Rightarrow> state" where
  "delete_chunk c s =
     (case heap s c of
        None \<Rightarrow> s\<lparr>status := Undefined (DoubleFree c)\<rparr>
      | Some ch \<Rightarrow> emit (ChunkDeleted c) (s\<lparr>heap := (heap s)(c := None)\<rparr>))"

text \<open>
  \<open>for(auto *c : list_of_chunks) delete c;\<close> as it stands at line 19 in the handler
  and at lines 100 to 102 in \<open>main\<close>. The list itself is not changed by the loop.
\<close>

fun delete_all :: "addr list \<Rightarrow> state \<Rightarrow> state" where
  "delete_all [] s = s"
| "delete_all (c # cs) s =
     (if status s = Running then delete_all cs (delete_chunk c s) else s)"

text \<open>Lines 89 to 94: one output statement per event.\<close>

definition event_line :: "LogEvent \<Rightarrow> tok list" where
  "event_line e = [Str ''  storyId='', Dec (int (storyId e)),
                   Str '', time='', Dec (int (eventTime e)),
                   Str '', clientId='', Dec (int (clientId e)),
                   Str '', index='', Dec (int (eventIndex e)),
                   Str '', record=\"'', Str (logRecord e), Str ''\"\<newline>'']"

fun print_events :: "LogEvent list \<Rightarrow> state \<Rightarrow> state" where
  "print_events [] s = s"
| "print_events (e # es) s = print_events es (emit (Stdout (event_line e)) s)"

definition chunk_header :: "StoryChunk \<Rightarrow> tok list" where
  "chunk_header ch = [Str ''Chunk with '', Dec (getEventCount ch), Str '' events:\<newline>'']"

text \<open>
  The body of the loop of lines 85 to 97 for one chunk pointer: the header, the events,
  and \<open>delete chunk\<close> (line 96). Reading through a pointer to a deleted chunk is
  undefined behaviour.
\<close>

definition render_chunk :: "addr \<Rightarrow> state \<Rightarrow> state" where
  "render_chunk c s =
     (case heap s c of
        None \<Rightarrow> s\<lparr>status := Undefined (UseAfterFree c)\<rparr>
      | Some ch \<Rightarrow> delete_chunk c (print_events ch (emit (Stdout (chunk_header ch)) s)))"

fun render_loop :: "addr list \<Rightarrow> state \<Rightarrow> state" where
  "render_loop [] s = s"
| "render_loop (c # cs) s =
     (if status s = Running then render_loop cs (render_chunk c s) else s)"

text \<open>Lines 84 to 97: the count line and the loop over the collection.\<close>

definition count_line :: "addr list \<Rightarrow> tok list" where
  "count_line cs = [Dec (int (length cs)), Str '' chunk(s) returned.\<newline>'']"

definition render :: "state \<Rightarrow> state" where
  "render s = render_loop (list_of_chunks s) (emit (Stdout (count_line (list_of_chunks s))) s)"

text \<open>Lines 100 to 103: the second loop over the collection, then \<open>clear()\<close>.\<close>

definition release :: "state \<Rightarrow> state" where
  "release s = when_running (\<lambda>t. t\<lparr>list_of_chunks := []\<rparr>) (delete_all (list_of_chunks s) s)"

text \<open>Lines 106 to 110: shut the agent down, delete it, null the pointer, return 0.\<close>

definition shutdown_and_return :: "state \<Rightarrow> state" where
  "shutdown_and_return s =
     (if agent_live s
      then (emit AgentDeleted (emit AgentShutdown s))
             \<lparr>agent_live := False, agent_ptr := None, status := Exited 0\<rparr>
      else s\<lparr>status := Undefined DanglingAgent\<rparr>)"

subsection \<open>main up to the read (lines 24 to 82)\<close>

definition reading_line :: "params \<Rightarrow> tok list" where
  "reading_line p = [Str ''Reading ['', Dec (uint (start_time p)), Str '','',
                     Dec (uint (end_time p)), Str ''] from '',
                     Str (chronicle_name p), Str ''.'', Str (story_name p), Str ''\<newline>'']"

text \<open>
  Lines 24 to 78: the flag loop, the check of \<open>conf_file\<close>, the configuration and the
  logger, the handler, the agent and its \<open>initialize\<close>, and the line that announces
  the read. An exception thrown by \<open>std::stoull\<close> or by \<open>initialize\<close> ends the
  process.
\<close>

definition main_init :: "env \<Rightarrow> state" where
  "main_init env =
     (case flag_loop (args env) defaults of
        Inl e \<Rightarrow> initial\<lparr>status := Terminated e\<rparr>
      | Inr p \<Rightarrow>
          if conf_file p = [] then
            (emit (Stderr (usage (prog env))) (initial\<lparr>locals := p\<rparr>))
              \<lparr>status := Exited EXIT_FAILURE\<rparr>
          else
            let s1 = emit LoggerInitialized
                       (emit (ConfigLoaded (conf_file p)) (initial\<lparr>locals := p\<rparr>))
            in if logger_rc env = 1 then s1\<lparr>status := Exited EXIT_FAILURE\<rparr>
               else
                 let s2 = (emit (AgentNew (story_files_dir env)) (s1\<lparr>handler := True\<rparr>))
                            \<lparr>agent_ptr := Some (story_files_dir env), agent_live := True\<rparr>;
                     s3 = emit AgentInitialize s2
                 in if initialize_result env = FailsByException
                    then s3\<lparr>status := Terminated BackendError\<rparr>
                    else emit (Stdout (reading_line p)) s3)"

text \<open>
  Lines 80 to 82: the blocking read. The agent appends the chunks it allocated to the
  collection passed by reference; an exception ends the process, any returned value is
  dropped.
\<close>

definition readArchivedStory :: "env \<Rightarrow> state \<Rightarrow> state" where
  "readArchivedStory env s =
     (let p = locals s;
          s1 = emit (AgentRead (chronicle_name p) (story_name p) (start_time p) (end_time p)) s;
          s2 = s1\<lparr>heap := heap s1 ++ map_of (read_chunks env),
                   list_of_chunks := list_of_chunks s1 @ map fst (read_chunks env),
                   trace := trace s1 @ map (\<lambda>c. ChunkAllocated (fst c)) (read_chunks env)\<rparr>
      in if read_result env = FailsByException
         then s2\<lparr>status := Terminated BackendError\<rparr>
         else s2)"

definition main_read :: "env \<Rightarrow> state" where
  "main_read env = when_running (readArchivedStory env) (main_init env)"

subsection \<open>main\<close>

definition main :: "env \<Rightarrow> state" where
  "main env =
     when_running shutdown_and_return
       (when_running release
          (when_running render (main_read env)))"

subsection \<open>signalHandler (lines 17 to 22)\<close>

definition signalHandler :: "int \<Rightarrow> state \<Rightarrow> state" where
  "signalHandler sig s =
     (let s1 = emit (Stdout [Str ''Interrupt ('', Dec sig, Str '')\<newline>'']) s;
          s2 = delete_all (list_of_chunks s1) s1;
          s3 = when_running
                 (\<lambda>t. case agent_ptr t of
                         None \<Rightarrow> t
                       | Some _ \<Rightarrow>
                           if agent_live t
                           then (emit AgentDeleted (emit AgentShutdown t))\<lparr>agent_live := False\<rparr>
                           else t\<lparr>status := Undefined DanglingAgent\<rparr>) s2
      in when_running (\<lambda>t. t\<lparr>status := Exited sig\<rparr>) s3)"

text \<open>
  Delivery of a signal to a running process: the handler runs once line 69 has
  installed it; before that the default action kills the process.
\<close>

definition interrupt :: "int \<Rightarrow> state \<Rightarrow> state" where
  "interrupt sig s =
     (if status s \<noteq> Running then s
      else if handler s then signalHandler sig s
      else s\<lparr>status := Killed sig\<rparr>)"

subsection \<open>Reading the trace\<close>

definition is_read :: "event \<Rightarrow> bool" where
  "is_read e = (case e of AgentRead _ _ _ _ \<Rightarrow> True | _ \<Rightarrow> False)"

definition is_backend :: "event \<Rightarrow> bool" where
  "is_backend e = (case e of AgentNew _ \<Rightarrow> True | AgentInitialize \<Rightarrow> True
                    | AgentRead _ _ _ _ \<Rightarrow> True | AgentShutdown \<Rightarrow> True
                    | AgentDeleted \<Rightarrow> True | _ \<Rightarrow> False)"

definition is_alloc :: "event \<Rightarrow> bool" where
  "is_alloc e = (case e of ChunkAllocated _ \<Rightarrow> True | _ \<Rightarrow> False)"

definition is_stdout :: "event \<Rightarrow> bool" where
  "is_stdout e = (case e of Stdout _ \<Rightarrow> True | _ \<Rightarrow> False)"

definition is_stderr :: "event \<Rightarrow> bool" where
  "is_stderr e = (case e of Stderr _ \<Rightarrow> True | _ \<Rightarrow> False)"

definition is_delete :: "event \<Rightarrow> bool" where
  "is_delete e = (case e of ChunkDeleted _ \<Rightarrow> True | _ \<Rightarrow> False)"

subsection \<open>Example runs\<close>

text \<open>
  Concrete surroundings used to run the model: a program called \<open>reader\<close>, a logger
  that starts, a backend whose calls succeed, the given arguments and the given chunks.
\<close>

definition example_env :: "string list \<Rightarrow> (addr \<times> StoryChunk) list \<Rightarrow> env" where
  "example_env as cs = \<lparr> prog = ''reader'', args = as, story_files_dir = ''/tmp/archive'',
       logger_rc = 0, initialize_result = Succeeds, read_result = Succeeds, read_chunks = cs \<rparr>"

definition example_event :: "nat \<Rightarrow> LogEvent" where
  "example_event t = \<lparr> storyId = 7, eventTime = t, clientId = 1, eventIndex = 0, logRecord = ''hello'' \<rparr>"

definition env_inverted :: env where
  "env_inverted = example_env [''-c'', ''conf.json'', ''-st'', ''2000'', ''-et'', ''1000''] []"

definition env_initialize_status :: env where
  "env_initialize_status = (example_env [''-c'', ''conf.json''] [])\<lparr>initialize_result := FailsByStatus\<rparr>"

definition env_read_status :: env where
  "env_read_status =
     (example_env [''-c'', ''conf.json''] [(1, [example_event 1500])])\<lparr>read_result := FailsByStatus\<rparr>"

definition env_read_throws :: env where
  "env_read_throws =
     (example_env [''-c'', ''conf.json''] [(1, [example_event 1500])])\<lparr>read_result := FailsByException\<rparr>"

definition env_initialize_throws :: env where
  "env_initialize_throws = (example_env [''-c'', ''conf.json''] [])\<lparr>initialize_result := FailsByException\<rparr>"

definition env_no_chunks :: env where
  "env_no_chunks = example_env [''-c'', ''conf.json''] []"

definition env_one_chunk :: env where
  "env_one_chunk = example_env [''-c'', ''conf.json''] [(1, [example_event 1500])]"

definition env_two_chunks :: env where
  "env_two_chunks = example_env [''-c'', ''conf.json'']
     [(1, [example_event 1000, example_event 1500]), (2, [example_event 1999])]"

text \<open>What the loop body of lines 85 to 97 adds to the trace for a live chunk.\<close>

definition chunk_output :: "addr \<Rightarrow> StoryChunk \<Rightarrow> event list" where
  "chunk_output c ch = Stdout (chunk_header ch) # map (\<lambda>e. Stdout (event_line e)) ch @ [ChunkDeleted c]"

section \<open>Lemmas\<close>

subsection \<open>The flag loop\<close>

lemma flag_loop_skip:
  "a \<noteq> ''-c'' \<Longrightarrow> a \<noteq> ''--config'' \<Longrightarrow> a \<noteq> ''-C'' \<Longrightarrow> a \<noteq> ''-S'' \<Longrightarrow>
   a \<noteq> ''-st'' \<Longrightarrow> a \<noteq> ''--start'' \<Longrightarrow> a \<noteq> ''-et'' \<Longrightarrow> a \<noteq> ''--end'' \<Longrightarrow>
   flag_loop (a # rest) p = flag_loop rest p"
  by (cases rest) simp_all

lemma flag_loop_start_time:
  "flag_loop as p = Inr p' \<Longrightarrow> ''-st'' \<notin> set as \<Longrightarrow> ''--start'' \<notin> set as \<Longrightarrow>
   start_time p' = start_time p"
  by (induction as p rule: flag_loop.induct) (auto split: if_splits sum.splits)

lemma flag_loop_end_time:
  "flag_loop as p = Inr p' \<Longrightarrow> ''-et'' \<notin> set as \<Longrightarrow> ''--end'' \<notin> set as \<Longrightarrow>
   end_time p' = end_time p"
  by (induction as p rule: flag_loop.induct) (auto split: if_splits sum.splits)

lemma flag_loop_conf_file:
  "flag_loop as p = Inr p' \<Longrightarrow> ''-c'' \<notin> set as \<Longrightarrow> ''--config'' \<notin> set as \<Longrightarrow>
   conf_file p' = conf_file p"
  by (induction as p rule: flag_loop.induct) (auto split: if_splits sum.splits)

subsection \<open>What the steps after the read add to the trace\<close>

lemma when_running_simps [simp]:
  "status s = Running \<Longrightarrow> when_running f s = f s"
  "status s \<noteq> Running \<Longrightarrow> when_running f s = s"
  by (simp_all add: when_running_def)

lemma filter_trace_delete_chunk:
  "(\<And>a. \<not> P (ChunkDeleted a)) \<Longrightarrow> filter P (trace (delete_chunk c s)) = filter P (trace s)"
  by (simp add: delete_chunk_def emit_def split: option.splits)

lemma filter_trace_delete_all:
  "(\<And>a. \<not> P (ChunkDeleted a)) \<Longrightarrow> filter P (trace (delete_all cs s)) = filter P (trace s)"
  by (induction cs arbitrary: s) (simp_all add: filter_trace_delete_chunk)

lemma filter_trace_print_events:
  "(\<And>l. \<not> P (Stdout l)) \<Longrightarrow> filter P (trace (print_events es s)) = filter P (trace s)"
  by (induction es arbitrary: s) (simp_all add: emit_def)

lemma filter_trace_render_chunk:
  "(\<And>a. \<not> P (ChunkDeleted a)) \<Longrightarrow> (\<And>l. \<not> P (Stdout l)) \<Longrightarrow>
   filter P (trace (render_chunk c s)) = filter P (trace s)"
  by (simp add: render_chunk_def filter_trace_delete_chunk filter_trace_print_events emit_def
           split: option.splits)

lemma filter_trace_render_loop:
  "(\<And>a. \<not> P (ChunkDeleted a)) \<Longrightarrow> (\<And>l. \<not> P (Stdout l)) \<Longrightarrow>
   filter P (trace (render_loop cs s)) = filter P (trace s)"
  by (induction cs arbitrary: s) (simp_all add: filter_trace_render_chunk)

lemma filter_trace_render:
  "(\<And>a. \<not> P (ChunkDeleted a)) \<Longrightarrow> (\<And>l. \<not> P (Stdout l)) \<Longrightarrow>
   filter P (trace (render s)) = filter P (trace s)"
  by (simp add: render_def filter_trace_render_loop emit_def)

lemma filter_trace_release:
  "(\<And>a. \<not> P (ChunkDeleted a)) \<Longrightarrow> filter P (trace (release s)) = filter P (trace s)"
  by (simp add: release_def when_running_def filter_trace_delete_all)

lemma filter_trace_after_read:
  assumes "\<And>a. \<not> P (ChunkDeleted a)" and "\<And>l. \<not> P (Stdout l)"
    and "\<not> P AgentShutdown" and "\<not> P AgentDeleted"
  shows "filter P (trace (when_running shutdown_and_return
            (when_running release (when_running render s)))) = filter P (trace s)"
  using assms
  by (simp add: when_running_def shutdown_and_return_def emit_def
        filter_trace_release filter_trace_render)

lemma main_trace_filter:
  assumes "\<And>a. \<not> P (ChunkDeleted a)" and "\<And>l. \<not> P (Stdout l)"
    and "\<not> P AgentShutdown" and "\<not> P AgentDeleted"
  shows "filter P (trace (main env)) = filter P (trace (main_read env))"
  unfolding main_def using assms by (rule filter_trace_after_read)

subsection \<open>Unfolding a run\<close>

lemmas stoull_defs = stoull_def isspace_c_def isdigit_c_def digit_value_def decimal_value_def
  ULLONG_MAX_def

lemmas run_defs = main_def main_read_def main_init_def readArchivedStory_def render_def
  release_def shutdown_and_return_def emit_def initial_def defaults_def example_env_def
  render_chunk_def delete_chunk_def count_line_def chunk_header_def
  getEventCount_def EXIT_FAILURE_def Let_def

lemma main_init_list [simp]: "list_of_chunks (main_init env) = []"
  by (simp add: main_init_def initial_def emit_def Let_def split: sum.splits)

lemma main_init_heap [simp]: "heap (main_init env) = Map.empty"
  by (simp add: main_init_def initial_def emit_def Let_def split: sum.splits)

lemma main_init_no_read: "filter is_read (trace (main_init env)) = []"
  by (simp add: main_init_def initial_def emit_def Let_def is_read_def split: sum.splits)

lemma main_init_no_alloc: "filter is_alloc (trace (main_init env)) = []"
  by (simp add: main_init_def initial_def emit_def Let_def is_alloc_def split: sum.splits)

lemma main_stopped: "status (main_init env) \<noteq> Running \<Longrightarrow> main env = main_init env"
  by (simp add: main_def main_read_def)

lemma main_init_usage:
  "flag_loop (args env) defaults = Inr p \<Longrightarrow> conf_file p = [] \<Longrightarrow>
   main_init env = (initial\<lparr>locals := p\<rparr>)\<lparr>trace := [Stderr (usage (prog env))], status := Exited 1\<rparr>"
  by (simp add: main_init_def initial_def emit_def EXIT_FAILURE_def)

lemma main_init_stoull:
  "flag_loop (args env) defaults = Inl e \<Longrightarrow> main_init env = initial\<lparr>status := Terminated e\<rparr>"
  by (simp add: main_init_def)

lemma main_init_running:
  "flag_loop (args env) defaults = Inr p \<Longrightarrow> conf_file p \<noteq> [] \<Longrightarrow> logger_rc env \<noteq> 1 \<Longrightarrow>
   initialize_result env \<noteq> FailsByException \<Longrightarrow>
   main_init env = \<lparr> locals = p, list_of_chunks = [], agent_ptr = Some (story_files_dir env),
      agent_live = True, heap = Map.empty, handler = True,
      trace = [ConfigLoaded (conf_file p), LoggerInitialized, AgentNew (story_files_dir env),
               AgentInitialize, Stdout (reading_line p)],
      status = Running \<rparr>"
  by (simp add: main_init_def initial_def emit_def Let_def)

lemma main_init_initialize_throws:
  "flag_loop (args env) defaults = Inr p \<Longrightarrow> conf_file p \<noteq> [] \<Longrightarrow> logger_rc env \<noteq> 1 \<Longrightarrow>
   initialize_result env = FailsByException \<Longrightarrow>
   main_init env = \<lparr> locals = p, list_of_chunks = [], agent_ptr = Some (story_files_dir env),
      agent_live = True, heap = Map.empty, handler = True,
      trace = [ConfigLoaded (conf_file p), LoggerInitialized, AgentNew (story_files_dir env),
               AgentInitialize],
      status = Terminated BackendError \<rparr>"
  by (simp add: main_init_def initial_def emit_def Let_def)


lemma readArchivedStory_reads:
  "filter is_read (trace (readArchivedStory env s))
     = filter is_read (trace s)
       @ [AgentRead (chronicle_name (locals s)) (story_name (locals s))
            (start_time (locals s)) (end_time (locals s))]"
  by (simp add: readArchivedStory_def Let_def emit_def is_read_def filter_map comp_def)

lemma flag_loop_inverted:
  "flag_loop (args env_inverted) defaults
     = Inr (defaults\<lparr>conf_file := ''conf.json'', start_time := 2000, end_time := 1000\<rparr>)"
  by (simp add: env_inverted_def example_env_def stoull_defs)

subsection \<open>Values returned by the backend are dropped\<close>

lemma main_init_initialize_status:
  "main_init (env\<lparr>initialize_result := FailsByStatus\<rparr>)
     = main_init (env\<lparr>initialize_result := Succeeds\<rparr>)"
  by (simp add: main_init_def Let_def split: sum.splits)

lemma readArchivedStory_initialize_result:
  "readArchivedStory (env\<lparr>initialize_result := r\<rparr>) s = readArchivedStory env s"
  by (simp add: readArchivedStory_def Let_def)

lemma main_initialize_status:
  "main (env\<lparr>initialize_result := FailsByStatus\<rparr>) = main (env\<lparr>initialize_result := Succeeds\<rparr>)"
  by (simp add: main_def main_read_def when_running_def main_init_initialize_status
        readArchivedStory_initialize_result)

lemma main_init_read_result:
  "main_init (env\<lparr>read_result := r\<rparr>) = main_init env"
  by (simp add: main_init_def Let_def split: sum.splits)

lemma readArchivedStory_read_status:
  "readArchivedStory (env\<lparr>read_result := FailsByStatus\<rparr>) s
     = readArchivedStory (env\<lparr>read_result := Succeeds\<rparr>) s"
  by (simp add: readArchivedStory_def Let_def)

lemma main_read_status:
  "main (env\<lparr>read_result := FailsByStatus\<rparr>) = main (env\<lparr>read_result := Succeeds\<rparr>)"
  by (simp add: main_def main_read_def when_running_def main_init_read_result
        readArchivedStory_read_status)

lemma main_initialize_throws_no_read:
  "initialize_result env = FailsByException \<Longrightarrow> filter is_read (trace (main env)) = []"
proof -
  assume a: "initialize_result env = FailsByException"
  then have "status (main_init env) \<noteq> Running"
    by (simp add: main_init_def initial_def emit_def Let_def split: sum.splits)
  then show ?thesis by (simp add: main_stopped main_init_no_read)
qed

subsection \<open>Exit statuses and the collection\<close>

lemma readArchivedStory_throws:
  "read_result env = FailsByException \<Longrightarrow>
   status (readArchivedStory env s) = Terminated BackendError
   \<and> trace (readArchivedStory env s)
       = trace s @ AgentRead (chronicle_name (locals s)) (story_name (locals s))
                     (start_time (locals s)) (end_time (locals s))
                 # map (\<lambda>c. ChunkAllocated (fst c)) (read_chunks env)"
  by (simp add: readArchivedStory_def Let_def emit_def)

lemma readArchivedStory_status:
  "status s = Running \<Longrightarrow> status (readArchivedStory env s) \<noteq> Exited k"
  by (simp add: readArchivedStory_def Let_def emit_def)

lemma delete_all_list [simp]: "list_of_chunks (delete_all cs s) = list_of_chunks s"
  by (induction cs arbitrary: s) (simp_all add: delete_chunk_def emit_def split: option.splits)

lemma delete_chunk_no_exit:
  "status s \<noteq> Exited k \<Longrightarrow> status (delete_chunk c s) \<noteq> Exited k"
  by (simp add: delete_chunk_def emit_def split: option.splits)

lemma delete_all_no_exit:
  "status s \<noteq> Exited k \<Longrightarrow> status (delete_all cs s) \<noteq> Exited k"
  by (induction cs arbitrary: s) (simp_all add: delete_chunk_no_exit)

lemma print_events_status [simp]: "status (print_events es s) = status s"
  by (induction es arbitrary: s) (simp_all add: emit_def)

lemma render_chunk_no_exit:
  "status s \<noteq> Exited k \<Longrightarrow> status (render_chunk c s) \<noteq> Exited k"
  by (simp add: render_chunk_def delete_chunk_no_exit emit_def split: option.splits)

lemma render_loop_no_exit:
  "status s \<noteq> Exited k \<Longrightarrow> status (render_loop cs s) \<noteq> Exited k"
  by (induction cs arbitrary: s) (simp_all add: render_chunk_no_exit)

lemma render_no_exit: "status s \<noteq> Exited k \<Longrightarrow> status (render s) \<noteq> Exited k"
  by (simp add: render_def render_loop_no_exit emit_def)

lemma release_no_exit: "status s \<noteq> Exited k \<Longrightarrow> status (release s) \<noteq> Exited k"
  by (simp add: release_def when_running_def delete_all_no_exit)

lemma release_list: "status (release s) = Running \<Longrightarrow> list_of_chunks (release s) = []"
  by (simp add: release_def when_running_def split: if_splits)

lemma shutdown_and_return_list [simp]:
  "list_of_chunks (shutdown_and_return s) = list_of_chunks s"
  by (simp add: shutdown_and_return_def emit_def)

lemma main_exited_list:
  assumes ex: "status (main env) = Exited k"
  shows "list_of_chunks (main env) = []"
proof (cases "status (main_init env) = Running")
  case False
  then show ?thesis by (simp add: main_stopped)
next
  case True
  define a where "a = readArchivedStory env (main_init env)"
  define r where "r = render a"
  define q where "q = release r"
  have a_ne: "status a \<noteq> Exited k"
    unfolding a_def using True by (rule readArchivedStory_status)
  have mr: "main_read env = a" using True by (simp add: main_read_def a_def)
  have a_run: "status a = Running"
  proof (rule ccontr)
    assume "status a \<noteq> Running"
    then have "main env = a" by (simp add: main_def mr)
    with ex a_ne show False by simp
  qed
  have r_ne: "status r \<noteq> Exited k" unfolding r_def using a_ne by (rule render_no_exit)
  have r_run: "status r = Running"
  proof (rule ccontr)
    assume "status r \<noteq> Running"
    then have "main env = r" using a_run by (simp add: main_def mr r_def)
    with ex r_ne show False by simp
  qed
  have q_ne: "status q \<noteq> Exited k" unfolding q_def using r_ne by (rule release_no_exit)
  have q_run: "status q = Running"
  proof (rule ccontr)
    assume "status q \<noteq> Running"
    then have "main env = q" using a_run r_run by (simp add: main_def mr r_def q_def)
    with ex q_ne show False by simp
  qed
  have "main env = shutdown_and_return q"
    using a_run r_run q_run by (simp add: main_def mr r_def q_def)
  moreover have "list_of_chunks q = []" unfolding q_def using q_run [unfolded q_def] by (rule release_list)
  ultimately show ?thesis by simp
qed

subsection \<open>Loops over live chunks\<close>

lemma delete_all_live:
  "distinct cs \<Longrightarrow> \<forall>c\<in>set cs. heap s c \<noteq> None \<Longrightarrow> status s = Running \<Longrightarrow>
   delete_all cs s = s\<lparr>heap := heap s |` (- set cs), trace := trace s @ map ChunkDeleted cs\<rparr>"
proof (induction cs arbitrary: s)
  case Nil
  then show ?case by simp
next
  case (Cons c cs)
  from Cons.prems obtain ch where ch: "heap s c = Some ch" by auto
  let ?t = "s\<lparr>heap := (heap s)(c := None), trace := trace s @ [ChunkDeleted c]\<rparr>"
  have d: "delete_chunk c s = ?t" by (simp add: delete_chunk_def emit_def ch)
  have "delete_all cs ?t = ?t\<lparr>heap := heap ?t |` (- set cs), trace := trace ?t @ map ChunkDeleted cs\<rparr>"
    using Cons.prems by (intro Cons.IH) auto
  moreover have "((heap s)(c := None)) |` (- set cs) = heap s |` (- set (c # cs))"
    by (auto simp: restrict_map_def fun_eq_iff)
  ultimately show ?case using Cons.prems(3) by (simp add: d)
qed

lemma print_events_trace:
  "print_events es s = s\<lparr>trace := trace s @ map (\<lambda>e. Stdout (event_line e)) es\<rparr>"
  by (induction es arbitrary: s) (simp_all add: emit_def)

lemma render_chunk_live:
  "heap s c = Some ch \<Longrightarrow>
   render_chunk c s = s\<lparr>heap := (heap s)(c := None), trace := trace s @ chunk_output c ch\<rparr>"
  by (simp add: render_chunk_def delete_chunk_def print_events_trace emit_def chunk_output_def)

lemma render_loop_live:
  "distinct (map fst xs) \<Longrightarrow> \<forall>(c, ch)\<in>set xs. heap s c = Some ch \<Longrightarrow> status s = Running \<Longrightarrow>
   render_loop (map fst xs) s
     = s\<lparr>heap := heap s |` (- fst ` set xs),
         trace := trace s @ concat (map (\<lambda>(c, ch). chunk_output c ch) xs)\<rparr>"
proof (induction xs arbitrary: s)
  case Nil
  then show ?case by simp
next
  case (Cons x xs)
  obtain c ch where x: "x = (c, ch)" by (cases x)
  from Cons.prems x have ch: "heap s c = Some ch" by simp
  let ?t = "s\<lparr>heap := (heap s)(c := None), trace := trace s @ chunk_output c ch\<rparr>"
  have d: "render_chunk c s = ?t" using ch by (rule render_chunk_live)
  have live: "\<forall>(c', ch')\<in>set xs. heap ?t c' = Some ch'"
    using Cons.prems(1,2) x by (auto simp: rev_image_eqI)
  have ih: "render_loop (map fst xs) ?t
      = ?t\<lparr>heap := heap ?t |` (- fst ` set xs),
            trace := trace ?t @ concat (map (\<lambda>(c, ch). chunk_output c ch) xs)\<rparr>"
    using Cons.prems(1,3) live by (intro Cons.IH) simp_all
  have h: "((heap s)(c := None)) |` (- fst ` set xs) = heap s |` (- fst ` set (x # xs))"
    by (auto simp: restrict_map_def fun_eq_iff x)
  have "render_loop (map fst (x # xs)) s = render_loop (map fst xs) ?t"
    using Cons.prems(3) by (simp add: x d)
  also note ih
  also have "?t\<lparr>heap := heap ?t |` (- fst ` set xs),
            trace := trace ?t @ concat (map (\<lambda>(c, ch). chunk_output c ch) xs)\<rparr>
     = s\<lparr>heap := ((heap s)(c := None)) |` (- fst ` set xs),
         trace := trace s @ concat (map (\<lambda>(c, ch). chunk_output c ch) (x # xs))\<rparr>"
    by (simp add: x)
  finally show ?case by (simp only: h)
qed

subsection \<open>The state after the read, and the handler run on it\<close>

lemma main_init_running_cases:
  "status (main_init env) = Running \<Longrightarrow>
   \<exists>p. flag_loop (args env) defaults = Inr p \<and> conf_file p \<noteq> [] \<and> logger_rc env \<noteq> 1
       \<and> initialize_result env \<noteq> FailsByException"
  by (auto simp: main_init_def initial_def emit_def Let_def split: sum.splits if_splits)

lemma main_read_running:
  assumes "status (main_read env) = Running"
  shows "\<exists>p. main_read env = \<lparr> locals = p, list_of_chunks = map fst (read_chunks env),
      agent_ptr = Some (story_files_dir env), agent_live = True,
      heap = map_of (read_chunks env), handler = True,
      trace = [ConfigLoaded (conf_file p), LoggerInitialized, AgentNew (story_files_dir env),
               AgentInitialize, Stdout (reading_line p),
               AgentRead (chronicle_name p) (story_name p) (start_time p) (end_time p)]
              @ map (\<lambda>c. ChunkAllocated (fst c)) (read_chunks env),
      status = Running \<rparr>"
proof -
  have r: "status (main_init env) = Running"
    using assms by (auto simp: main_read_def when_running_def split: if_splits)
  from main_init_running_cases [OF r] obtain p where
    p: "flag_loop (args env) defaults = Inr p" "conf_file p \<noteq> []" "logger_rc env \<noteq> 1"
       "initialize_result env \<noteq> FailsByException" by blast
  note init = main_init_running [OF p]
  have mr: "main_read env = readArchivedStory env (main_init env)"
    using r by (simp add: main_read_def)
  have nt: "read_result env \<noteq> FailsByException"
    using assms mr by (auto simp: readArchivedStory_def Let_def split: if_splits)
  show ?thesis
    by (rule exI [of _ p]) (simp add: mr init readArchivedStory_def Let_def emit_def nt)
qed

lemma count_list_map_ChunkDeleted:
  "count_list (map ChunkDeleted cs) (ChunkDeleted c) = count_list cs c"
  by (induction cs) auto

lemma count_list_ChunkAllocated:
  "count_list (map (\<lambda>c. ChunkAllocated (fst c)) xs) (ChunkDeleted c) = 0"
  "count_list (map (\<lambda>c. ChunkAllocated (fst c)) xs) AgentShutdown = 0"
  by (induction xs) auto

lemma count_list_ChunkDeleted_other:
  "count_list (map ChunkDeleted cs) AgentShutdown = 0"
  by (induction cs) auto

lemma count_list_distinct: "distinct cs \<Longrightarrow> c \<in> set cs \<Longrightarrow> count_list cs c = 1"
  by (induction cs) auto

lemma render_after_read:
  assumes "status (main_read env) = Running" and "distinct (map fst (read_chunks env))"
  shows "render (main_read env)
     = (main_read env)\<lparr>heap := heap (main_read env) |` (- fst ` set (read_chunks env)),
          trace := trace (main_read env)
                   @ Stdout (count_line (map fst (read_chunks env)))
                   # concat (map (\<lambda>(c, ch). chunk_output c ch) (read_chunks env))\<rparr>"
proof -
  from main_read_running [OF assms(1)] obtain p where
    a: "main_read env = \<lparr> locals = p, list_of_chunks = map fst (read_chunks env),
      agent_ptr = Some (story_files_dir env), agent_live = True,
      heap = map_of (read_chunks env), handler = True,
      trace = [ConfigLoaded (conf_file p), LoggerInitialized, AgentNew (story_files_dir env),
               AgentInitialize, Stdout (reading_line p),
               AgentRead (chronicle_name p) (story_name p) (start_time p) (end_time p)]
              @ map (\<lambda>c. ChunkAllocated (fst c)) (read_chunks env),
      status = Running \<rparr>" by blast
  let ?s = "emit (Stdout (count_line (map fst (read_chunks env)))) (main_read env)"
  have live: "\<forall>(c, ch)\<in>set (read_chunks env). heap ?s c = Some ch"
    using assms(2) by (auto simp: a emit_def)
  have run: "status ?s = Running" by (simp add: a emit_def)
  have "render (main_read env) = render_loop (map fst (read_chunks env)) ?s"
    by (simp add: render_def a)
  also note render_loop_live [OF assms(2) live run]
  finally show ?thesis by (simp add: emit_def)
qed

lemma handler_state_after_read:
  assumes "status (main_read env) = Running" and "distinct (map fst (read_chunks env))"
  shows "interrupt sig (main_read env)
     = (main_read env)\<lparr>agent_live := False,
          heap := heap (main_read env) |` (- set (list_of_chunks (main_read env))),
          trace := trace (main_read env)
                   @ Stdout [Str ''Interrupt ('', Dec sig, Str '')\<newline>'']
                   # map ChunkDeleted (list_of_chunks (main_read env))
                   @ [AgentShutdown, AgentDeleted],
          status := Exited sig\<rparr>"
proof -
  from main_read_running [OF assms(1)] obtain p where
    a: "main_read env = \<lparr> locals = p, list_of_chunks = map fst (read_chunks env),
      agent_ptr = Some (story_files_dir env), agent_live = True,
      heap = map_of (read_chunks env), handler = True,
      trace = [ConfigLoaded (conf_file p), LoggerInitialized, AgentNew (story_files_dir env),
               AgentInitialize, Stdout (reading_line p),
               AgentRead (chronicle_name p) (story_name p) (start_time p) (end_time p)]
              @ map (\<lambda>c. ChunkAllocated (fst c)) (read_chunks env),
      status = Running \<rparr>" by blast
  let ?s = "emit (Stdout [Str ''Interrupt ('', Dec sig, Str '')\<newline>'']) (main_read env)"
  have live: "\<forall>c\<in>set (map fst (read_chunks env)). heap ?s c \<noteq> None"
    by (auto simp: a emit_def map_of_eq_None_iff)
  have run: "status ?s = Running" by (simp add: a emit_def)
  have l: "list_of_chunks ?s = map fst (read_chunks env)" by (simp add: a emit_def)
  note d = delete_all_live [OF assms(2) live run]
  have "interrupt sig (main_read env) = signalHandler sig (main_read env)"
    by (simp add: interrupt_def a)
  then show ?thesis
    by (simp add: signalHandler_def Let_def l d) (simp add: a emit_def)
qed

subsection \<open>The second delete on the normal path\<close>

text \<open>
  Every run of \<open>main\<close> in which the read returns a non-empty collection of distinct
  chunks passes the rendering loop and then stops at the second delete of the first
  chunk (line 101).
\<close>

lemma delete_all_stopped: "status s \<noteq> Running \<Longrightarrow> delete_all cs s = s"
  by (cases cs) simp_all

lemma main_nonempty_double_free:
  assumes run: "status (main_read env) = Running"
    and dist: "distinct (map fst (read_chunks env))"
    and ne: "read_chunks env = (c, ch) # xs"
  shows "status (main env) = Undefined (DoubleFree c)"
proof -
  let ?r = "render (main_read env)"
  note r = render_after_read [OF run dist]
  from main_read_running [OF run] have l: "list_of_chunks (main_read env) = map fst (read_chunks env)"
    by auto
  have r_run: "status ?r = Running" by (simp add: r run)
  have r_list: "list_of_chunks ?r = c # map fst xs" by (simp add: r l ne)
  have r_heap: "heap ?r c = None" by (simp add: r ne)
  have "status (release ?r) = Undefined (DoubleFree c)"
    by (simp add: release_def r_list r_run r_heap delete_chunk_def delete_all_stopped)
  moreover have "main env = release ?r"
    using run r_run calculation by (simp add: main_def)
  ultimately show ?thesis by simp
qed

text \<open>In such a run the collection keeps every pointer the read appended.\<close>

lemma main_nonempty_list:
  assumes run: "status (main_read env) = Running"
    and dist: "distinct (map fst (read_chunks env))"
    and ne: "read_chunks env = (c, ch) # xs"
  shows "list_of_chunks (main env) = map fst (read_chunks env)"
proof -
  let ?r = "render (main_read env)"
  note r = render_after_read [OF run dist]
  from main_read_running [OF run] have l: "list_of_chunks (main_read env) = map fst (read_chunks env)"
    by auto
  have r_run: "status ?r = Running" by (simp add: r run)
  have r_list: "list_of_chunks ?r = map fst (read_chunks env)" by (simp add: r l)
  have r_heap: "heap ?r c = None" by (simp add: r ne)
  have st: "status (release ?r) = Undefined (DoubleFree c)"
    by (simp add: release_def r_list ne r_run r_heap delete_chunk_def delete_all_stopped)
  have "list_of_chunks (release ?r) = map fst (read_chunks env)"
    using st by (simp add: release_def when_running_def r_list split: if_splits)
  moreover have "main env = release ?r"
    using run r_run st by (simp add: main_def)
  ultimately show ?thesis by simp
qed

section \<open>The claims\<close>

text \<open>
  C9. Rendering a collection with zero chunks prints the count line with the number 0
  and nothing else: the state after \<open>render\<close> is the state before it with that one
  line added to standard output, so no chunk header and no event line is printed.
\<close>

theorem render_empty:
  "list_of_chunks s = [] \<Longrightarrow>
   render s = emit (Stdout [Dec 0, Str '' chunk(s) returned.\<newline>'']) s"
  by (simp add: render_def count_line_def emit_def)

theorem render_empty_witness:
  "list_of_chunks initial = [] \<and>
   trace (render initial) = [Stdout [Dec 0, Str '' chunk(s) returned.\<newline>'']]"
proof -
  have h: "list_of_chunks initial = []" by (simp add: initial_def)
  from render_empty [OF h] h show ?thesis by (simp add: emit_def initial_def)
qed

text \<open>
  C10. The usage message names the flags \<open>-s\<close> and \<open>-e\<close> for the start and end
  time, but the flag loop knows them only as \<open>-st\<close>/\<open>--start\<close> and
  \<open>-et\<close>/\<open>--end\<close>: an argument \<open>-s\<close> or \<open>-e\<close>, like every argument that is none of
  the eight known spellings, is skipped without any effect, and a loop that finishes on
  arguments without \<open>-st\<close>/\<open>--start\<close> (without \<open>-et\<close>/\<open>--end\<close>) leaves the start
  time (the end time) as it was.
\<close>

theorem flag_loop_ignores_s_and_e:
  "Str '' [-s startTime] [-e endTime]\<newline>'' \<in> set (usage argv0)
   \<and> flag_loop (''-s'' # rest) p = flag_loop rest p
   \<and> flag_loop (''-e'' # rest) p = flag_loop rest p
   \<and> (a \<notin> {''-c'', ''--config'', ''-C'', ''-S'', ''-st'', ''--start'', ''-et'', ''--end''}
        \<longrightarrow> flag_loop (a # rest) p = flag_loop rest p)
   \<and> (flag_loop as p = Inr p' \<and> ''-st'' \<notin> set as \<and> ''--start'' \<notin> set as
        \<longrightarrow> start_time p' = start_time p)
   \<and> (flag_loop as p = Inr p' \<and> ''-et'' \<notin> set as \<and> ''--end'' \<notin> set as
        \<longrightarrow> end_time p' = end_time p)"
proof -
  have "Str '' [-s startTime] [-e endTime]\<newline>'' \<in> set (usage argv0)"
    by (simp add: usage_def)
  moreover have "flag_loop (''-s'' # rest) p = flag_loop rest p"
    by (rule flag_loop_skip) simp_all
  moreover have "flag_loop (''-e'' # rest) p = flag_loop rest p"
    by (rule flag_loop_skip) simp_all
  moreover have "a \<notin> {''-c'', ''--config'', ''-C'', ''-S'', ''-st'', ''--start'', ''-et'', ''--end''}
        \<longrightarrow> flag_loop (a # rest) p = flag_loop rest p"
    by (auto intro: flag_loop_skip)
  ultimately show ?thesis
    using flag_loop_start_time [of as p p'] flag_loop_end_time [of as p p'] by blast
qed

theorem flag_loop_ignores_s_and_e_witness:
  "''--verbose'' \<notin> {''-c'', ''--config'', ''-C'', ''-S'', ''-st'', ''--start'', ''-et'', ''--end''}
   \<and> flag_loop [''--verbose'', ''-c'', ''conf.json''] defaults
       = flag_loop [''-c'', ''conf.json''] defaults
   \<and> flag_loop [''-c'', ''conf.json'', ''-s'', ''5'', ''-e'', ''9''] defaults
       = Inr (defaults\<lparr>conf_file := ''conf.json''\<rparr>)
   \<and> ''-st'' \<notin> set [''-c'', ''conf.json'', ''-s'', ''5'', ''-e'', ''9'']
   \<and> ''--start'' \<notin> set [''-c'', ''conf.json'', ''-s'', ''5'', ''-e'', ''9'']
   \<and> ''-et'' \<notin> set [''-c'', ''conf.json'', ''-s'', ''5'', ''-e'', ''9'']
   \<and> ''--end'' \<notin> set [''-c'', ''conf.json'', ''-s'', ''5'', ''-e'', ''9'']
   \<and> start_time (defaults\<lparr>conf_file := ''conf.json''\<rparr>) = start_time defaults
   \<and> end_time (defaults\<lparr>conf_file := ''conf.json''\<rparr>) = end_time defaults"
  using flag_loop_ignores_s_and_e
    [of "''reader''" "[''-c'', ''conf.json'']" defaults "''--verbose''"
        "[''-c'', ''conf.json'', ''-s'', ''5'', ''-e'', ''9'']"
        "defaults\<lparr>conf_file := ''conf.json''\<rparr>"]
  by simp

text \<open>
  C5 (as amended). When neither \<open>-c\<close> nor \<open>--config\<close> occurs among the arguments,
  the run never constructs, initializes, reads or shuts down the agent and no chunk is
  allocated. If the flag loop runs to its end, the only output is the usage message on
  standard error and the exit status is 1. If \<open>std::stoull\<close> throws inside the loop,
  the process is terminated by the uncaught exception before the check of line 48, and
  the usage message is not printed.
\<close>

theorem no_config_usage:
  "''-c'' \<notin> set (args env) \<and> ''--config'' \<notin> set (args env) \<longrightarrow>
     filter is_backend (trace (main env)) = []
     \<and> filter is_alloc (trace (main env)) = []
     \<and> heap (main env) = Map.empty
     \<and> (flag_loop (args env) defaults = Inr p \<longrightarrow>
          trace (main env) = [Stderr (usage (prog env))] \<and> status (main env) = Exited 1)
     \<and> (flag_loop (args env) defaults = Inl e \<longrightarrow>
          trace (main env) = [] \<and> status (main env) = Terminated e)"
proof (intro impI, elim conjE)
  assume nc: "''-c'' \<notin> set (args env)" "''--config'' \<notin> set (args env)"
  show "filter is_backend (trace (main env)) = []
     \<and> filter is_alloc (trace (main env)) = []
     \<and> heap (main env) = Map.empty
     \<and> (flag_loop (args env) defaults = Inr p \<longrightarrow>
          trace (main env) = [Stderr (usage (prog env))] \<and> status (main env) = Exited 1)
     \<and> (flag_loop (args env) defaults = Inl e \<longrightarrow>
          trace (main env) = [] \<and> status (main env) = Terminated e)"
  proof (cases "flag_loop (args env) defaults")
    case (Inl x)
    then have "main env = initial\<lparr>status := Terminated x\<rparr>"
      by (simp add: main_stopped main_init_stoull)
    with Inl show ?thesis by (simp add: initial_def)
  next
    case (Inr q)
    from flag_loop_conf_file [OF Inr nc] have "conf_file q = []"
      by (simp add: defaults_def)
    with Inr have "main env
        = (initial\<lparr>locals := q\<rparr>)\<lparr>trace := [Stderr (usage (prog env))], status := Exited 1\<rparr>"
      by (simp add: main_stopped main_init_usage)
    with Inr show ?thesis by (simp add: initial_def is_backend_def is_alloc_def)
  qed
qed

theorem no_config_usage_witness:
  "''-c'' \<notin> set [''-C'', ''LLM''] \<and> ''--config'' \<notin> set [''-C'', ''LLM'']
   \<and> flag_loop [''-C'', ''LLM''] defaults = Inr defaults
   \<and> trace (main (example_env [''-C'', ''LLM''] [])) = [Stderr (usage ''reader'')]
   \<and> status (main (example_env [''-C'', ''LLM''] [])) = Exited 1
   \<and> flag_loop [''-st'', ''abc''] defaults = Inl InvalidArgument
   \<and> status (main (example_env [''-st'', ''abc''] [])) = Terminated InvalidArgument"
  using no_config_usage [of "example_env [''-C'', ''LLM''] []" defaults InvalidArgument]
    no_config_usage [of "example_env [''-st'', ''abc''] []" defaults InvalidArgument]
  by (simp add: example_env_def defaults_def stoull_defs)

text \<open>
  C5 as stated fails for the arguments \<open>-st abc\<close>: no configuration source is given,
  yet the usage message is not printed, because \<open>std::stoull("abc")\<close> throws
  \<open>std::invalid_argument\<close> at line 42 and nothing catches it.
\<close>

theorem no_config_counterexample:
  "''-c'' \<notin> set (args (example_env [''-st'', ''abc''] []))
   \<and> ''--config'' \<notin> set (args (example_env [''-st'', ''abc''] []))
   \<and> Stderr (usage (prog (example_env [''-st'', ''abc''] [])))
         \<notin> set (trace (main (example_env [''-st'', ''abc''] [])))
   \<and> status (main (example_env [''-st'', ''abc''] [])) = Terminated InvalidArgument"
  by (simp add: run_defs stoull_defs)

text \<open>
  C2 (as amended). \<open>main\<close> does not compare the start time with the end time.
  Whenever a configuration file is named, the flag loop finishes, the logger starts and
  the agent's \<open>initialize\<close> does not throw, the backend read is invoked exactly once,
  with the chronicle, the story and the time window exactly as the flag loop left them,
  whether or not the start lies after the end.
\<close>

theorem read_invoked_without_range_check:
  assumes "flag_loop (args env) defaults = Inr p" and "conf_file p \<noteq> []"
    and "logger_rc env \<noteq> 1" and "initialize_result env \<noteq> FailsByException"
  shows "filter is_read (trace (main env))
           = [AgentRead (chronicle_name p) (story_name p) (start_time p) (end_time p)]"
proof -
  note init = main_init_running [OF assms]
  have "filter is_read (trace (main env)) = filter is_read (trace (main_read env))"
    by (rule main_trace_filter) (simp_all add: is_read_def)
  also have "main_read env = readArchivedStory env (main_init env)"
    by (simp add: main_read_def init)
  also have "filter is_read (trace (readArchivedStory env (main_init env)))
      = [AgentRead (chronicle_name p) (story_name p) (start_time p) (end_time p)]"
    by (simp add: readArchivedStory_reads main_init_no_read) (simp add: init)
  finally show ?thesis .
qed

theorem read_invoked_without_range_check_witness:
  "flag_loop (args env_inverted) defaults
     = Inr (defaults\<lparr>conf_file := ''conf.json'', start_time := 2000, end_time := 1000\<rparr>)
   \<and> logger_rc env_inverted \<noteq> 1 \<and> initialize_result env_inverted \<noteq> FailsByException
   \<and> filter is_read (trace (main env_inverted)) = [AgentRead ''LLM'' ''conversation'' 2000 1000]"
proof -
  have h1: "flag_loop (args env_inverted) defaults
     = Inr (defaults\<lparr>conf_file := ''conf.json'', start_time := 2000, end_time := 1000\<rparr>)"
    by (rule flag_loop_inverted)
  have h2: "conf_file (defaults\<lparr>conf_file := ''conf.json'', start_time := 2000, end_time := 1000\<rparr>) \<noteq> []"
    by simp
  have h3: "logger_rc env_inverted \<noteq> 1" by (simp add: env_inverted_def example_env_def)
  have h4: "initialize_result env_inverted \<noteq> FailsByException"
    by (simp add: env_inverted_def example_env_def)
  from read_invoked_without_range_check [OF h1 h2 h3 h4] h1 h3 h4
  show ?thesis by (simp add: defaults_def)
qed

text \<open>
  C2 as stated fails for \<open>-c conf.json -st 2000 -et 1000\<close>: the start lies after
  the end, the backend read is invoked with that window, and the run ends with status 0.
\<close>

theorem inverted_range_counterexample:
  "end_time (locals (main env_inverted)) < start_time (locals (main env_inverted))
   \<and> filter is_read (trace (main env_inverted)) = [AgentRead ''LLM'' ''conversation'' 2000 1000]
   \<and> status (main env_inverted) = Exited 0"
  by (simp add: env_inverted_def run_defs stoull_defs is_read_def)

text \<open>
  C6 (as amended). If the agent's \<open>initialize\<close> throws, the blocking read is never
  invoked: when the run gets as far as line 75, the process is terminated there by the
  uncaught exception, after the configuration, the logger, the construction of the
  agent and the call of \<open>initialize\<close> and before anything else. \<open>main\<close> does not
  look at the value \<open>initialize\<close> returns: a run in which it reports failure through
  its return value is the same as the run in which it succeeds.
\<close>

theorem initialize_failure_before_read:
  "(initialize_result env = FailsByException \<longrightarrow> filter is_read (trace (main env)) = [])
   \<and> (initialize_result env = FailsByException \<and> flag_loop (args env) defaults = Inr p
        \<and> conf_file p \<noteq> [] \<and> logger_rc env \<noteq> 1 \<longrightarrow>
        status (main env) = Terminated BackendError
        \<and> trace (main env) = [ConfigLoaded (conf_file p), LoggerInitialized,
                               AgentNew (story_files_dir env), AgentInitialize])
   \<and> main (env\<lparr>initialize_result := FailsByStatus\<rparr>)
       = main (env\<lparr>initialize_result := Succeeds\<rparr>)"
proof (intro conjI impI)
  assume "initialize_result env = FailsByException"
  then show "filter is_read (trace (main env)) = []"
    by (rule main_initialize_throws_no_read)
next
  assume a: "initialize_result env = FailsByException \<and> flag_loop (args env) defaults = Inr p
        \<and> conf_file p \<noteq> [] \<and> logger_rc env \<noteq> 1"
  then have m: "main_init env = \<lparr> locals = p, list_of_chunks = [],
      agent_ptr = Some (story_files_dir env), agent_live = True, heap = Map.empty,
      handler = True,
      trace = [ConfigLoaded (conf_file p), LoggerInitialized, AgentNew (story_files_dir env),
               AgentInitialize],
      status = Terminated BackendError \<rparr>"
    by (simp add: main_init_initialize_throws)
  then have "main env = main_init env" by (simp add: main_stopped)
  with m show "status (main env) = Terminated BackendError"
    and "trace (main env) = [ConfigLoaded (conf_file p), LoggerInitialized,
                               AgentNew (story_files_dir env), AgentInitialize]"
    by simp_all
next
  show "main (env\<lparr>initialize_result := FailsByStatus\<rparr>)
       = main (env\<lparr>initialize_result := Succeeds\<rparr>)"
    by (rule main_initialize_status)
qed

theorem initialize_failure_before_read_witness:
  "initialize_result env_initialize_throws = FailsByException
   \<and> flag_loop (args env_initialize_throws) defaults = Inr (defaults\<lparr>conf_file := ''conf.json''\<rparr>)
   \<and> conf_file (defaults\<lparr>conf_file := ''conf.json''\<rparr>) \<noteq> []
   \<and> logger_rc env_initialize_throws \<noteq> 1
   \<and> filter is_read (trace (main env_initialize_throws)) = []
   \<and> status (main env_initialize_throws) = Terminated BackendError"
proof -
  have h1: "initialize_result env_initialize_throws = FailsByException"
    and h2: "flag_loop (args env_initialize_throws) defaults
               = Inr (defaults\<lparr>conf_file := ''conf.json''\<rparr>)"
    and h3: "logger_rc env_initialize_throws \<noteq> 1"
    by (simp_all add: env_initialize_throws_def example_env_def)
  have h4: "conf_file (defaults\<lparr>conf_file := ''conf.json''\<rparr>) \<noteq> []" by simp
  from initialize_failure_before_read
    [of env_initialize_throws "defaults\<lparr>conf_file := ''conf.json''\<rparr>"] h1 h2 h3 h4
  show ?thesis by (simp add: is_read_def)
qed

text \<open>
  C6 as stated fails when \<open>initialize\<close> reports its failure through the value it
  returns: line 75 drops that value and line 80 invokes the read.
\<close>

theorem initialize_failure_counterexample:
  "initialize_result env_initialize_status = FailsByStatus
   \<and> filter is_read (trace (main env_initialize_status))
       = [AgentRead ''LLM'' ''conversation'' (start_time defaults) (end_time defaults)]
   \<and> status (main env_initialize_status) = Exited 0"
  by (simp add: env_initialize_status_def run_defs is_read_def)

text \<open>
  C7 (as amended). If the read throws, the process is terminated by the uncaught
  exception at line 80: nothing is rendered, no chunk is released and the agent is not
  shut down; the trace ends with the read and the chunks it had allocated. \<open>main\<close>
  does not look at the value the read returns: a run in which the read reports failure
  through its return value is the same as the run in which it succeeds, so the count
  line and every chunk in the collection are rendered.
\<close>

theorem read_failure_behaviour:
  "(read_result env = FailsByException \<and> status (main_init env) = Running \<longrightarrow>
      status (main env) = Terminated BackendError
      \<and> trace (main env)
          = trace (main_init env)
            @ AgentRead (chronicle_name (locals (main_init env))) (story_name (locals (main_init env)))
                (start_time (locals (main_init env))) (end_time (locals (main_init env)))
            # map (\<lambda>c. ChunkAllocated (fst c)) (read_chunks env)
      \<and> filter is_delete (trace (main env)) = []
      \<and> AgentShutdown \<notin> set (trace (main env)))
   \<and> main (env\<lparr>read_result := FailsByStatus\<rparr>) = main (env\<lparr>read_result := Succeeds\<rparr>)"
proof (intro conjI impI)
  assume a: "read_result env = FailsByException \<and> status (main_init env) = Running"
  then have mr: "main_read env = readArchivedStory env (main_init env)"
    by (simp add: main_read_def)
  from a have st: "status (main_read env) = Terminated BackendError"
    and tr: "trace (main_read env)
       = trace (main_init env) @ AgentRead (chronicle_name (locals (main_init env)))
            (story_name (locals (main_init env))) (start_time (locals (main_init env)))
            (end_time (locals (main_init env)))
          # map (\<lambda>c. ChunkAllocated (fst c)) (read_chunks env)"
    by (simp_all add: mr readArchivedStory_throws)
  from st have m: "main env = main_read env" by (simp add: main_def)
  from m st show "status (main env) = Terminated BackendError" by simp
  from m tr show "trace (main env)
       = trace (main_init env) @ AgentRead (chronicle_name (locals (main_init env)))
            (story_name (locals (main_init env))) (start_time (locals (main_init env)))
            (end_time (locals (main_init env)))
          # map (\<lambda>c. ChunkAllocated (fst c)) (read_chunks env)" by simp
  have i1: "filter is_delete (trace (main_init env)) = []"
    and i2: "AgentShutdown \<notin> set (trace (main_init env))"
    by (auto simp: main_init_def initial_def emit_def Let_def is_delete_def split: sum.splits if_splits)
  from m tr i1 show "filter is_delete (trace (main env)) = []"
    by (simp add: is_delete_def filter_map comp_def)
  from m tr i2 show "AgentShutdown \<notin> set (trace (main env))" by auto
next
  show "main (env\<lparr>read_result := FailsByStatus\<rparr>) = main (env\<lparr>read_result := Succeeds\<rparr>)"
    by (rule main_read_status)
qed

theorem read_failure_behaviour_witness:
  "read_result env_read_throws = FailsByException
   \<and> status (main_init env_read_throws) = Running
   \<and> status (main env_read_throws) = Terminated BackendError
   \<and> filter is_delete (trace (main env_read_throws)) = []
   \<and> AgentShutdown \<notin> set (trace (main env_read_throws))"
proof -
  have h1: "read_result env_read_throws = FailsByException"
    by (simp add: env_read_throws_def example_env_def)
  have h2: "status (main_init env_read_throws) = Running"
    by (simp add: env_read_throws_def run_defs)
  from read_failure_behaviour [of env_read_throws] h1 h2 show ?thesis by blast
qed

text \<open>
  C7 as stated fails when the read reports its failure through the value it returns:
  line 80 drops that value, and the header and the event of the chunk that the read
  had appended are printed.
\<close>

theorem read_failure_counterexample:
  "read_result env_read_status = FailsByStatus
   \<and> Stdout [Dec 1, Str '' chunk(s) returned.\<newline>''] \<in> set (trace (main env_read_status))
   \<and> Stdout (chunk_header [example_event 1500]) \<in> set (trace (main env_read_status))
   \<and> Stdout (event_line (example_event 1500)) \<in> set (trace (main env_read_status))"
  by (simp add: env_read_status_def run_defs)


text \<open>
  C4. When SIGINT is delivered after the read has returned and before rendering
  begins, with the chunks of the collection freshly allocated (pairwise distinct
  addresses), the handler deletes every chunk of the collection exactly once, shuts the
  agent down exactly once, and ends the process with the signal number as exit status.
\<close>

theorem interrupt_after_read:
  assumes "status (main_read env) = Running" and "distinct (map fst (read_chunks env))"
  shows "status (interrupt sig (main_read env)) = Exited sig
     \<and> (\<forall>c\<in>set (list_of_chunks (main_read env)).
          count_list (trace (interrupt sig (main_read env))) (ChunkDeleted c) = 1
          \<and> heap (interrupt sig (main_read env)) c = None)
     \<and> count_list (trace (interrupt sig (main_read env))) AgentShutdown = 1"
proof -
  from main_read_running [OF assms(1)] obtain p where
    a: "main_read env = \<lparr> locals = p, list_of_chunks = map fst (read_chunks env),
      agent_ptr = Some (story_files_dir env), agent_live = True,
      heap = map_of (read_chunks env), handler = True,
      trace = [ConfigLoaded (conf_file p), LoggerInitialized, AgentNew (story_files_dir env),
               AgentInitialize, Stdout (reading_line p),
               AgentRead (chronicle_name p) (story_name p) (start_time p) (end_time p)]
              @ map (\<lambda>c. ChunkAllocated (fst c)) (read_chunks env),
      status = Running \<rparr>" by blast
  have l: "list_of_chunks (main_read env) = map fst (read_chunks env)" by (simp add: a)
  have t: "trace (main_read env)
      = [ConfigLoaded (conf_file p), LoggerInitialized, AgentNew (story_files_dir env),
               AgentInitialize, Stdout (reading_line p),
               AgentRead (chronicle_name p) (story_name p) (start_time p) (end_time p)]
              @ map (\<lambda>c. ChunkAllocated (fst c)) (read_chunks env)" by (simp add: a)
  note i = handler_state_after_read [OF assms, of sig]
  have st: "status (interrupt sig (main_read env)) = Exited sig" by (simp add: i)
  have sh: "count_list (trace (interrupt sig (main_read env))) AgentShutdown = 1"
    by (simp add: i t count_list_ChunkAllocated count_list_ChunkDeleted_other)
  have ch: "count_list (trace (interrupt sig (main_read env))) (ChunkDeleted c) = 1
          \<and> heap (interrupt sig (main_read env)) c = None"
    if "c \<in> set (list_of_chunks (main_read env))" for c
  proof -
    from that have c1: "count_list (list_of_chunks (main_read env)) c = 1"
      using assms(2) by (simp add: l count_list_distinct)
    have "count_list (trace (interrupt sig (main_read env))) (ChunkDeleted c) = 1"
      by (simp add: i t count_list_ChunkAllocated count_list_map_ChunkDeleted c1)
    moreover have "heap (interrupt sig (main_read env)) c = None"
      using that by (simp add: i)
    ultimately show ?thesis by simp
  qed
  from st sh ch show ?thesis by blast
qed

theorem interrupt_after_read_witness:
  "status (main_read env_two_chunks) = Running
   \<and> distinct (map fst (read_chunks env_two_chunks))
   \<and> list_of_chunks (main_read env_two_chunks) = [1, 2]
   \<and> status (interrupt 2 (main_read env_two_chunks)) = Exited 2
   \<and> count_list (trace (interrupt 2 (main_read env_two_chunks))) (ChunkDeleted 1) = 1
   \<and> count_list (trace (interrupt 2 (main_read env_two_chunks))) (ChunkDeleted 2) = 1
   \<and> count_list (trace (interrupt 2 (main_read env_two_chunks))) AgentShutdown = 1"
proof -
  have h1: "status (main_read env_two_chunks) = Running"
    by (simp add: env_two_chunks_def run_defs)
  have h2: "distinct (map fst (read_chunks env_two_chunks))"
    by (simp add: env_two_chunks_def example_env_def)
  have h3: "list_of_chunks (main_read env_two_chunks) = [1, 2]"
    by (simp add: env_two_chunks_def run_defs)
  from interrupt_after_read [OF h1 h2, of 2] h1 h2 h3 show ?thesis by simp
qed

text \<open>
  C1 (the code breaks it). On the normal path with one chunk in the collection, the
  chunk is deleted at line 96 inside the rendering loop and stays in the collection;
  the loop of lines 100 to 102 then deletes the same pointer again. The same happens
  when SIGINT arrives after the rendering loop: the handler deletes the pointers that
  line 96 has already deleted.
\<close>

theorem normal_path_double_delete:
  "list_of_chunks (main_read env_one_chunk) = [1]
   \<and> status (render (main_read env_one_chunk)) = Running
   \<and> count_list (trace (render (main_read env_one_chunk))) (ChunkDeleted 1) = 1
   \<and> list_of_chunks (render (main_read env_one_chunk)) = [1]
   \<and> status (main env_one_chunk) = Undefined (DoubleFree 1)
   \<and> status (interrupt 2 (render (main_read env_one_chunk))) = Undefined (DoubleFree 1)"
  by (simp add: env_one_chunk_def run_defs interrupt_def signalHandler_def)

text \<open>
  C3 (the code breaks it). Rendering a collection with one chunk prints the count
  line, the header of the chunk and its event, and then deletes the chunk (line 96):
  the chunk that was live before \<open>render\<close> is gone after it, while its pointer is
  still in the collection.
\<close>

theorem render_deletes_chunk:
  "status (main_read env_one_chunk) = Running
   \<and> heap (main_read env_one_chunk) 1 = Some [example_event 1500]
   \<and> heap (render (main_read env_one_chunk)) 1 = None
   \<and> list_of_chunks (render (main_read env_one_chunk)) = [1]
   \<and> trace (render (main_read env_one_chunk))
       = trace (main_read env_one_chunk)
         @ [Stdout [Dec 1, Str '' chunk(s) returned.\<newline>''],
            Stdout (chunk_header [example_event 1500]),
            Stdout (event_line (example_event 1500)),
            ChunkDeleted 1]"
  by (simp add: env_one_chunk_def run_defs)

end
